theory Spec2Isabelle
  imports Main "HOL-Library.AList"
begin

section \<open>The Roles page of the OpenMetadata UI\<close>

text \<open>
  A shallow embedding of \<^verbatim>\<open>RolesPage.component.tsx\<close>: the React component state is a
  record, every handler is a function from the state (the values its closure reads) to
  the updated state and the list of effects it issues (endpoint calls and toasts), and
  every promise chain \<^verbatim>\<open>.then(..).catch(..).finally(..)\<close> is a function of the outcome of
  the call.
\<close>

subsection \<open>Strings\<close>

text \<open>
  A JavaScript string is a sequence of UTF-16 code units. The embedding reads a
  \<^typ>\<open>char\<close> as a code unit below 256 (Latin-1); on these \<^verbatim>\<open>length\<close> is the list
  length, and \<^verbatim>\<open>String.prototype.trim\<close> and \<^verbatim>\<open>toLowerCase\<close> are as below. The white
  space and line terminator code units below 256 are TAB, LF, VT, FF, CR, SP and NBSP;
  the upper case letters are A to Z and U+00C0 to U+00DE without the multiplication
  sign U+00D7, each 32 below its lower case letter.
\<close>

definition isWhiteSpace :: "char \<Rightarrow> bool" where
  "isWhiteSpace c = (of_char c \<in> {9, 10, 11, 12, 13, 32, 160 :: nat})"

definition trim :: "string \<Rightarrow> string" where
  "trim s = rev (dropWhile isWhiteSpace (rev (dropWhile isWhiteSpace s)))"

definition toLowerChar :: "char \<Rightarrow> char" where
  "toLowerChar c =
     (let n = (of_char c :: nat)
      in if (65 \<le> n \<and> n \<le> 90) \<or> (192 \<le> n \<and> n \<le> 222 \<and> n \<noteq> 215)
         then char_of (n + 32) else c)"

text \<open>lodash \<^verbatim>\<open>toLower\<close>: \<^verbatim>\<open>toString(value).toLowerCase()\<close>.\<close>

definition toLower :: "string \<Rightarrow> string" where
  "toLower s = map toLowerChar s"

subsection \<open>Data model\<close>

text \<open>
  The generated types \<^verbatim>\<open>Role\<close>, \<^verbatim>\<open>Rule\<close> and \<^verbatim>\<open>EntityReference\<close> are imported by the
  component; the records hold the fields the component reads. A field the component
  reads through \<^verbatim>\<open>?.\<close>, \<^verbatim>\<open>??\<close> or a cast \<^verbatim>\<open>as string\<close> may be absent and is an option.
\<close>

record entity_reference =
  ref_id :: string
  ref_name :: "string option"
  ref_displayName :: "string option"

record role =
  role_id :: string
  role_name :: string
  displayName :: "string option"
  description :: "string option"
  policy :: "entity_reference option"
  users :: "entity_reference list option"

text \<open>
  \<^verbatim>\<open>operation\<close> is a string enumeration; the add-rule form starts from the empty string
  (\<^verbatim>\<open>'' as Operation\<close>), and the field may be absent. Both are falsy.
\<close>

record rule =
  rule_name :: string
  operation :: "string option"
  allow :: bool
  enabled :: bool
  userRoleAttr :: "string option"

text \<open>
  Modelled from the spec: the interface \<^verbatim>\<open>Policy\<close> of \<^verbatim>\<open>./policy.interface\<close>, which is
  not among the sources. The spec gives it a name, a policy type and an ordered list of
  rules, and these are the members the component reads.
\<close>

record policy_rec =
  policy_name :: string
  policyType :: string
  rules :: "rule list"

text \<open>\<^verbatim>\<open>FormErrorData\<close>: an object from field names to messages, in insertion order.\<close>

type_synonym form_error_data = "(string \<times> string) list"

record rule_flag =
  flag_rule :: "rule option"
  flag_state :: bool

text \<open>The \<^verbatim>\<open>useState\<close> cells of the component, with their initial values.\<close>

record page_state =
  roles :: "role list"
  currentRole :: "role option"
  currentPolicy :: "policy_rec option"
  error :: string
  currentTab :: nat
  isLoading :: bool
  isLoadingPolicy :: bool
  isAddingRole :: bool
  isAddingRule :: bool
  errorData :: "form_error_data option"
  isEditable :: bool
  deletingRule :: rule_flag
  editingRule :: rule_flag

definition initial_state :: page_state where
  "initial_state =
     \<lparr> roles = [], currentRole = None, currentPolicy = None, error = [],
       currentTab = 1, isLoading = False, isLoadingPolicy = False,
       isAddingRole = False, isAddingRule = False, errorData = None,
       isEditable = False,
       deletingRule = \<lparr> flag_rule = None, flag_state = False \<rparr>,
       editingRule = \<lparr> flag_rule = None, flag_state = False \<rparr> \<rparr>"

subsection \<open>Validation\<close>

text \<open>
  \<^verbatim>\<open>onNewDataChange(data, forceSet = false)\<close> returns the error object and records it
  with \<^verbatim>\<open>setErrorData\<close>. An object is truthy, also the empty one, so \<^verbatim>\<open>errorData\<close> is
  falsy exactly when it is \<^verbatim>\<open>undefined\<close>. A string is falsy exactly when it is empty.
\<close>

definition onNewDataChange ::
  "page_state \<Rightarrow> role \<Rightarrow> bool \<Rightarrow> form_error_data \<times> page_state" where
  "onNewDataChange st data forceSet =
     (if errorData st \<noteq> None \<or> forceSet then
        let errData0 = [];
            errData1 =
              (if trim (role_name data) = [] then
                 AList.update ''name'' ''Name is required'' errData0
               else if find (\<lambda>item. toLower (role_name item) = toLower (role_name data))
                         (roles st) \<noteq> None then
                 AList.update ''name'' ''Name already exists'' errData0
               else if length (role_name data) < 1 \<or> length (role_name data) > 128 then
                 AList.update ''name'' ''Name size must be between 1 and 128'' errData0
               else errData0);
            errData2 =
              (case displayName data of
                 None \<Rightarrow> AList.update ''displayName'' ''Display name is required'' errData1
               | Some dn \<Rightarrow>
                   if trim dn = [] then
                     AList.update ''displayName'' ''Display name is required'' errData1
                   else if length dn < 1 \<or> length dn > 128 then
                     AList.update ''displayName''
                       ''Display name size must be between 1 and 128'' errData1
                   else errData1)
        in (errData2, st\<lparr>errorData := Some errData2\<rparr>)
      else ([], st))"

definition validateRuleData ::
  "page_state \<Rightarrow> rule \<Rightarrow> bool \<Rightarrow> form_error_data \<times> page_state" where
  "validateRuleData st data forceSet =
     (if errorData st \<noteq> None \<or> forceSet then
        let errData0 = [];
            errData1 =
              (if operation data = None \<or> operation data = Some [] then
                 AList.update ''operation'' ''Operation is required.'' errData0
               else errData0)
        in (errData1, st\<lparr>errorData := Some errData1\<rparr>)
      else ([], st))"

subsection \<open>Endpoint calls, effects and promise chains\<close>

text \<open>
  The endpoints of \<^verbatim>\<open>rolesAPI\<close> are collaborators of the page: a call is an effect of
  the handler that issues it, and the outcome of the call (its response data, or the
  error it rejects with) is an input of the callbacks chained to it.
\<close>

record create_role =
  cr_description :: "string option"
  cr_name :: string
  cr_displayName :: "string option"

text \<open>
  The replacement policy handed to \<^verbatim>\<open>updatePolicy\<close>. Its members are read from
  \<^verbatim>\<open>currentPolicy\<close> through \<^verbatim>\<open>?.\<close>, and are \<^verbatim>\<open>undefined\<close> when no policy is held.
\<close>

record updated_policy =
  up_name :: "string option"
  up_policyType :: "string option"
  up_rules :: "rule list option"

text \<open>One operation of the JSON patch that \<^verbatim>\<open>compare\<close> returns: path and new value.\<close>

datatype patch_op = Add string string | Replace string string | Remove string

datatype request =
    GetRoles "string list"
  | GetRoleByName string "string list"
  | GetPolicy "string option" string
  | CreateRole create_role
  | UpdateRole string "patch_op list"
  | UpdatePolicy updated_policy

datatype js_error = TypeError | UnhandledRejection

text \<open>
  \<^verbatim>\<open>Toast variant body\<close> is one call of \<^verbatim>\<open>showToast\<close>; \<^verbatim>\<open>Uncaught\<close> is an exception
  that leaves the handler, or a rejection that no callback handles.
\<close>

datatype effect = Call request | Toast string string | Uncaught js_error

text \<open>
  What the handlers read of an \<^verbatim>\<open>AxiosError\<close>: \<^verbatim>\<open>error.message\<close>, and through
  \<^verbatim>\<open>err.response\<close> the members \<^verbatim>\<open>message\<close> and \<^verbatim>\<open>code\<close> of the response data. An error
  may have no response (a network error), and a response may have no data.
\<close>

record response_data =
  code :: "nat option"
  data_message :: "string option"

record axios_response =
  resp_data :: "response_data option"

record axios_error =
  message :: "string option"
  response :: "axios_response option"

datatype 'a outcome = Resolved 'a | Rejected axios_error

text \<open>
  \<^verbatim>\<open>promise.then(f).catch(g).finally(h)\<close>: \<open>f\<close> on the response or \<open>g\<close> on the
  error, then \<open>h\<close> in both cases. No \<open>f\<close> of this page throws on a response of its type.
  When \<open>g\<close> throws, \<open>h\<close> runs all the same and the chain ends in a rejection that
  nothing handles: \<open>g\<close> then yields the effect \<^verbatim>\<open>Uncaught\<close>.
\<close>

definition then_catch_finally ::
  "(page_state \<Rightarrow> 'a \<Rightarrow> page_state \<times> effect list) \<Rightarrow>
   (page_state \<Rightarrow> axios_error \<Rightarrow> page_state \<times> effect list) \<Rightarrow>
   (page_state \<Rightarrow> page_state) \<Rightarrow>
   page_state \<Rightarrow> 'a outcome \<Rightarrow> page_state \<times> effect list" where
  "then_catch_finally on_then on_catch on_finally st res =
     (let (st1, effs) =
            (case res of Resolved v \<Rightarrow> on_then st v | Rejected err \<Rightarrow> on_catch st err)
      in (on_finally st1, effs))"

subsection \<open>Fetching\<close>

definition onDescriptionEdit :: "page_state \<Rightarrow> page_state" where
  "onDescriptionEdit st = st\<lparr>isEditable := True\<rparr>"

definition onCancel :: "page_state \<Rightarrow> page_state" where
  "onCancel st = st\<lparr>isEditable := False\<rparr>"



definition fetchPolicy_then ::
  "page_state \<Rightarrow> policy_rec option \<Rightarrow> page_state \<times> effect list" where
  "fetchPolicy_then st res_data = (st\<lparr>currentPolicy := res_data\<rparr>, [])"

definition fetchPolicy_catch :: "page_state \<Rightarrow> axios_error \<Rightarrow> page_state \<times> effect list" where
  "fetchPolicy_catch st err = (st, [Toast ''error'' ''Error while getting policy''])"

definition fetchPolicy_finally :: "page_state \<Rightarrow> page_state" where
  "fetchPolicy_finally st = st\<lparr>isLoadingPolicy := False\<rparr>"

definition fetchPolicy_settled ::
  "page_state \<Rightarrow> policy_rec option outcome \<Rightarrow> page_state \<times> effect list" where
  "fetchPolicy_settled =
     then_catch_finally fetchPolicy_then fetchPolicy_catch fetchPolicy_finally"

definition fetchRoles :: "page_state \<Rightarrow> page_state \<times> effect list" where
  "fetchRoles st = (st\<lparr>isLoading := True\<rparr>, [Call (GetRoles [''policy'', ''users''])])"

text \<open>\<^verbatim>\<open>data[0]\<close> of an empty array is \<^verbatim>\<open>undefined\<close>.\<close>

definition fetchRoles_then :: "page_state \<Rightarrow> role list \<Rightarrow> page_state \<times> effect list" where
  "fetchRoles_then st data =
     (st\<lparr>roles := data,
         currentRole := (case data of [] \<Rightarrow> None | r # _ \<Rightarrow> Some r)\<rparr>, [])"

definition fetchRoles_catch :: "page_state \<Rightarrow> axios_error \<Rightarrow> page_state \<times> effect list" where
  "fetchRoles_catch st err =
     (st\<lparr>error := ''Error while getting roles''\<rparr>,
      [Toast ''error'' ''Error while getting roles''])"

definition fetchRoles_finally :: "page_state \<Rightarrow> page_state" where
  "fetchRoles_finally st = st\<lparr>isLoading := False\<rparr>"

definition fetchRoles_settled ::
  "page_state \<Rightarrow> role list outcome \<Rightarrow> page_state \<times> effect list" where
  "fetchRoles_settled = then_catch_finally fetchRoles_then fetchRoles_catch fetchRoles_finally"

text \<open>
  \<^verbatim>\<open>fetchCurrentRole\<close> and its callbacks read \<^verbatim>\<open>currentRole\<close> and \<^verbatim>\<open>roles\<close> from the
  closure of the render that created them (\<open>cl\<close>); their updates go to the state at the
  time they run (\<open>st\<close>).
\<close>

definition fetchCurrentRole ::
  "page_state \<Rightarrow> page_state \<Rightarrow> string \<Rightarrow> bool \<Rightarrow> page_state \<times> effect list" where
  "fetchCurrentRole cl st name update =
     (if map_option role_name (currentRole cl) \<noteq> Some name \<or> update then
        (st\<lparr>isLoading := True\<rparr>, [Call (GetRoleByName name [''users'', ''policy''])])
      else (st, []))"

definition fetchCurrentRole_then ::
  "page_state \<Rightarrow> page_state \<Rightarrow> role option \<Rightarrow> page_state \<times> effect list" where
  "fetchCurrentRole_then cl st res_data =
     (let st1 = st\<lparr>currentRole := res_data\<rparr>
      in if length (roles cl) \<le> 0 then fetchRoles st1 else (st1, []))"

text \<open>
  \<^verbatim>\<open>ERROR404\<close> is a constant of \<^verbatim>\<open>constants/constants\<close>, which is not among the sources;
  it is a parameter here. A number is truthy when it is not zero. The condition is
  \<^verbatim>\<open>err?.response?.data.code\<close>: without a response it is \<^verbatim>\<open>undefined\<close>; with a response
  that has no data, reading \<^verbatim>\<open>code\<close> throws a \<^verbatim>\<open>TypeError\<close> inside the callback.
\<close>

definition fetchCurrentRole_catch ::
  "string \<Rightarrow> page_state \<Rightarrow> axios_error \<Rightarrow> page_state \<times> effect list" where
  "fetchCurrentRole_catch ERROR404 st err =
     (case response err of
        None \<Rightarrow> (st, [])
      | Some resp \<Rightarrow>
          (case resp_data resp of
             None \<Rightarrow> (st, [Uncaught TypeError])
           | Some d \<Rightarrow>
               (case code d of
                  None \<Rightarrow> (st, [])
                | Some c \<Rightarrow> if c \<noteq> 0 then (st\<lparr>error := ERROR404\<rparr>, []) else (st, []))))"

definition fetchCurrentRole_finally :: "page_state \<Rightarrow> page_state" where
  "fetchCurrentRole_finally st = st\<lparr>isLoading := False\<rparr>"

definition fetchCurrentRole_settled ::
  "string \<Rightarrow> page_state \<Rightarrow> page_state \<Rightarrow> role option outcome \<Rightarrow> page_state \<times> effect list" where
  "fetchCurrentRole_settled ERROR404 cl =
     then_catch_finally (fetchCurrentRole_then cl) (fetchCurrentRole_catch ERROR404)
       fetchCurrentRole_finally"

subsection \<open>Role creation and description update\<close>

text \<open>\<^verbatim>\<open>Object.values(errData).length\<close> is the number of entries of the error object.\<close>

definition createNewRole :: "page_state \<Rightarrow> role \<Rightarrow> page_state \<times> effect list" where
  "createNewRole st data =
     (let (errData, st1) = onNewDataChange st data True
      in if length errData = 0 then
           (st1, [Call (CreateRole \<lparr> cr_description = description data,
                                     cr_name = role_name data,
                                     cr_displayName = displayName data \<rparr>)])
         else (st1, []))"

definition createNewRole_then :: "page_state \<Rightarrow> role option \<Rightarrow> page_state \<times> effect list" where
  "createNewRole_then st res_data =
     (if res_data \<noteq> None then fetchRoles st else (st, []))"

definition createNewRole_catch :: "page_state \<Rightarrow> axios_error \<Rightarrow> page_state \<times> effect list" where
  "createNewRole_catch st err =
     (st, [Toast ''error''
             (case message err of Some m \<Rightarrow> m | None \<Rightarrow> ''Something went wrong!'')])"

definition createNewRole_finally :: "page_state \<Rightarrow> page_state" where
  "createNewRole_finally st = st\<lparr>isAddingRole := False\<rparr>"

definition createNewRole_settled ::
  "page_state \<Rightarrow> role option outcome \<Rightarrow> page_state \<times> effect list" where
  "createNewRole_settled =
     then_catch_finally createNewRole_then createNewRole_catch createNewRole_finally"

text \<open>
  \<^verbatim>\<open>compare\<close> of fast-json-patch, on a role and its copy with another description: the
  two objects differ in the member \<^verbatim>\<open>description\<close> at most.
\<close>

definition compare :: "role \<Rightarrow> role \<Rightarrow> patch_op list" where
  "compare tree1 tree2 =
     (if description tree1 = description tree2 then []
      else case description tree2 of
             None \<Rightarrow> [Remove ''/description'']
           | Some d \<Rightarrow>
               (case description tree1 of
                  None \<Rightarrow> [Add ''/description'' d]
                | Some _ \<Rightarrow> [Replace ''/description'' d]))"

text \<open>
  \<^verbatim>\<open>currentRole?.description !== updatedHTML\<close> holds when no role is current. Then
  \<^verbatim>\<open>compare\<close> is applied to \<^verbatim>\<open>undefined\<close>, whose keys it cannot list: the handler
  throws before it reaches \<^verbatim>\<open>setIsEditable(false)\<close>. The page renders the description
  editor only when \<^verbatim>\<open>roles\<close> is not empty.
\<close>

definition onDescriptionUpdate :: "page_state \<Rightarrow> string \<Rightarrow> page_state \<times> effect list" where
  "onDescriptionUpdate st updatedHTML =
     (case currentRole st of
        None \<Rightarrow> (st, [Uncaught TypeError])
      | Some r \<Rightarrow>
          if description r \<noteq> Some updatedHTML then
            let updatedRole = r\<lparr>description := Some updatedHTML\<rparr>;
                jsonPatch = compare r updatedRole
            in (st\<lparr>isEditable := False\<rparr>, [Call (UpdateRole (role_id r) jsonPatch)])
          else (st\<lparr>isEditable := False\<rparr>, []))"

definition onDescriptionUpdate_then ::
  "page_state \<Rightarrow> page_state \<Rightarrow> role option \<Rightarrow> page_state \<times> effect list" where
  "onDescriptionUpdate_then cl st res_data =
     (case res_data of
        None \<Rightarrow> (st, [])
      | Some r \<Rightarrow> fetchCurrentRole cl st (role_name r) True)"

text \<open>The chain is \<^verbatim>\<open>updateRole(..).then(..)\<close> alone: a rejection is handled nowhere.\<close>

definition onDescriptionUpdate_settled ::
  "page_state \<Rightarrow> page_state \<Rightarrow> role option outcome \<Rightarrow> page_state \<times> effect list" where
  "onDescriptionUpdate_settled cl st res =
     (case res of
        Resolved v \<Rightarrow> onDescriptionUpdate_then cl st v
      | Rejected err \<Rightarrow> (st, [Uncaught UnhandledRejection]))"

subsection \<open>Rule creation, update and deletion\<close>

text \<open>\<^verbatim>\<open>err.response?.data?.message ?? fallback\<close>.\<close>

definition response_message_or :: "axios_error \<Rightarrow> string \<Rightarrow> string" where
  "response_message_or err fallback =
     (case response err of
        None \<Rightarrow> fallback
      | Some resp \<Rightarrow>
          (case resp_data resp of
             None \<Rightarrow> fallback
           | Some d \<Rightarrow> (case data_message d of None \<Rightarrow> fallback | Some m \<Rightarrow> m)))"

definition setCurrentPolicy :: "page_state \<Rightarrow> policy_rec option \<Rightarrow> page_state \<times> effect list" where
  "setCurrentPolicy st res_data = (st\<lparr>currentPolicy := res_data\<rparr>, [])"

text \<open>
  Spreading \<^verbatim>\<open>currentPolicy?.rules\<close> when no policy is held throws, after the forced
  validation has recorded its result. The template literal prints an absent operation
  as \<^verbatim>\<open>undefined\<close>; validation has excluded it where the name is built.
\<close>

definition createRule :: "page_state \<Rightarrow> rule \<Rightarrow> page_state \<times> effect list" where
  "createRule st data =
     (let (errData, st1) = validateRuleData st data True
      in if length errData = 0 then
           (case currentPolicy st of
              None \<Rightarrow> (st1, [Uncaught TypeError])
            | Some p \<Rightarrow>
                let newRule = data\<lparr>
                      rule_name := policy_name p @ ''-'' @
                        (case operation data of Some opn \<Rightarrow> opn | None \<Rightarrow> ''undefined''),
                      userRoleAttr := map_option role_name (currentRole st)\<rparr>;
                    updatedPolicy = \<lparr> up_name = Some (policy_name p),
                                      up_policyType = Some (policyType p),
                                      up_rules = Some (rules p @ [newRule]) \<rparr>
                in (st1, [Call (UpdatePolicy updatedPolicy)]))
         else (st1, []))"

definition createRule_catch :: "page_state \<Rightarrow> axios_error \<Rightarrow> page_state \<times> effect list" where
  "createRule_catch st err =
     (st, [Toast ''error'' (response_message_or err ''Error while adding new rule'')])"

definition createRule_finally :: "page_state \<Rightarrow> page_state" where
  "createRule_finally st = st\<lparr>isAddingRule := False\<rparr>"

definition createRule_settled ::
  "page_state \<Rightarrow> policy_rec option outcome \<Rightarrow> page_state \<times> effect list" where
  "createRule_settled = then_catch_finally setCurrentPolicy createRule_catch createRule_finally"

definition onRuleUpdate :: "page_state \<Rightarrow> rule \<Rightarrow> page_state \<times> effect list" where
  "onRuleUpdate st data =
     (let rules1 = map_option
            (\<lambda>p. map (\<lambda>rule. if rule_name rule = rule_name data then data else rule) (rules p))
            (currentPolicy st);
          updatedPolicy = \<lparr> up_name = map_option policy_name (currentPolicy st),
                            up_policyType = map_option policyType (currentPolicy st),
                            up_rules = rules1 \<rparr>
      in (st, [Call (UpdatePolicy updatedPolicy)]))"

definition onRuleUpdate_catch ::
  "rule \<Rightarrow> page_state \<Rightarrow> axios_error \<Rightarrow> page_state \<times> effect list" where
  "onRuleUpdate_catch data st err =
     (st, [Toast ''error''
             (response_message_or err (''Error while updating '' @ rule_name data @ '' rule''))])"

definition onRuleUpdate_finally :: "page_state \<Rightarrow> page_state" where
  "onRuleUpdate_finally st = st\<lparr>editingRule := \<lparr> flag_rule = None, flag_state = False \<rparr>\<rparr>"

definition onRuleUpdate_settled ::
  "rule \<Rightarrow> page_state \<Rightarrow> policy_rec option outcome \<Rightarrow> page_state \<times> effect list" where
  "onRuleUpdate_settled data =
     then_catch_finally setCurrentPolicy (onRuleUpdate_catch data) onRuleUpdate_finally"

definition deleteRule :: "page_state \<Rightarrow> rule \<Rightarrow> page_state \<times> effect list" where
  "deleteRule st data =
     (let updatedPolicy =
            \<lparr> up_name = map_option policy_name (currentPolicy st),
              up_policyType = map_option policyType (currentPolicy st),
              up_rules = map_option
                (\<lambda>p. filter (\<lambda>rule. operation rule \<noteq> operation data) (rules p))
                (currentPolicy st) \<rparr>
      in (st, [Call (UpdatePolicy updatedPolicy)]))"

definition deleteRule_catch :: "page_state \<Rightarrow> axios_error \<Rightarrow> page_state \<times> effect list" where
  "deleteRule_catch st err =
     (st, [Toast ''error'' (response_message_or err ''Error while deleting rule'')])"

definition deleteRule_finally :: "page_state \<Rightarrow> page_state" where
  "deleteRule_finally st = st\<lparr>deletingRule := \<lparr> flag_rule = None, flag_state = False \<rparr>\<rparr>"

definition deleteRule_settled ::
  "page_state \<Rightarrow> policy_rec option outcome \<Rightarrow> page_state \<times> effect list" where
  "deleteRule_settled = then_catch_finally setCurrentPolicy deleteRule_catch deleteRule_finally"

subsection \<open>Click handlers and effects of the view\<close>

text \<open>The add-role button of the left panel, and the link shown when there is no role.\<close>

definition add_role_onClick :: "page_state \<Rightarrow> page_state" where
  "add_role_onClick st = st\<lparr>errorData := None, isAddingRole := True\<rparr>"

definition click_here_onClick :: "page_state \<Rightarrow> page_state" where
  "click_here_onClick st = st\<lparr>errorData := None, isAddingRole := True\<rparr>"

text \<open>The button \<^verbatim>\<open>Add new rule\<close>.\<close>

definition add_rule_onClick :: "page_state \<Rightarrow> page_state" where
  "add_rule_onClick st = st\<lparr>errorData := None, isAddingRule := True\<rparr>"


text \<open>
  The switch of a row of the rule table:
  \<^verbatim>\<open>onRuleUpdate({ ...rule, enabled: !rule.enabled })\<close>.
\<close>

definition rule_switch_onClick :: "page_state \<Rightarrow> rule \<Rightarrow> page_state \<times> effect list" where
  "rule_switch_onClick st r = onRuleUpdate st (r\<lparr>enabled := \<not> enabled r\<rparr>)"

text \<open>
  The two effects. The first runs once, after the first render. The second has the
  dependency list \<^verbatim>\<open>[currentRole]\<close>: React runs it after the first render and after
  every render in which \<^verbatim>\<open>currentRole\<close> is another object than in the render before;
  \<open>changed\<close> is the result of that comparison.
\<close>

definition useEffect_mount :: "page_state \<Rightarrow> page_state \<times> effect list" where
  "useEffect_mount st = fetchRoles st"




subsection \<open>The two forms\<close>

text \<open>
  \<^verbatim>\<open>FormModal\<close> and \<^verbatim>\<open>AddRuleModal\<close> call \<^verbatim>\<open>onChange\<close> with the data of the form, which
  validates without the force flag, and \<^verbatim>\<open>onSave\<close>, which validates with it. A change
  event yields the mapping returned to the modal.
\<close>

datatype form_event =
    RoleFormChange role
  | RoleFormSave role
  | RuleFormChange rule
  | RuleFormSave rule

fun is_change :: "form_event \<Rightarrow> bool" where
  "is_change (RoleFormChange _) = True"
| "is_change (RuleFormChange _) = True"
| "is_change _ = False"

fun form_event_step ::
  "page_state \<Rightarrow> form_event \<Rightarrow> form_error_data option \<times> page_state \<times> effect list" where
  "form_event_step st (RoleFormChange data) =
     (let (errData, st1) = onNewDataChange st data False in (Some errData, st1, []))"
| "form_event_step st (RoleFormSave data) =
     (let (st1, effs) = createNewRole st data in (None, st1, effs))"
| "form_event_step st (RuleFormChange data) =
     (let (errData, st1) = validateRuleData st data False in (Some errData, st1, []))"
| "form_event_step st (RuleFormSave data) =
     (let (st1, effs) = createRule st data in (None, st1, effs))"

fun run_form_events ::
  "page_state \<Rightarrow> form_event list \<Rightarrow> form_error_data option list \<times> page_state \<times> effect list" where
  "run_form_events st [] = ([], st, [])"
| "run_form_events st (ev # evs) =
     (let (res, st1, effs1) = form_event_step st ev;
          (ress, st2, effs2) = run_form_events st1 evs
      in (res # ress, st2, effs1 @ effs2))"

subsection \<open>Example data\<close>

definition admin_role :: role where
  "admin_role =
     \<lparr> role_id = ''r1'', role_name = ''admin'', displayName = Some ''Admin'',
       description = Some ''Administrators'',
       policy = Some \<lparr> ref_id = ''p1'', ref_name = None, ref_displayName = None \<rparr>,
       users = Some [] \<rparr>"

definition steward_role :: role where
  "steward_role =
     \<lparr> role_id = ''r2'', role_name = ''steward'', displayName = Some ''Data Steward'',
       description = None,
       policy = Some \<lparr> ref_id = ''p2'', ref_name = None, ref_displayName = None \<rparr>,
       users = None \<rparr>"

text \<open>The candidate of the spec's scenario, a blank candidate and a valid one.\<close>

definition candidate_Admin :: role where
  "candidate_Admin =
     \<lparr> role_id = [], role_name = ''Admin'', displayName = Some ''X'', description = Some [],
       policy = None, users = None \<rparr>"

definition candidate_blank :: role where
  "candidate_blank =
     \<lparr> role_id = [], role_name = ''  '', displayName = Some [], description = Some [],
       policy = None, users = None \<rparr>"

definition candidate_valid :: role where
  "candidate_valid =
     \<lparr> role_id = [], role_name = ''consumer'', displayName = Some ''Data Consumer'',
       description = Some [], policy = None, users = None \<rparr>"

definition rule_update_tags :: rule where
  "rule_update_tags =
     \<lparr> rule_name = ''p1-UpdateTags'', operation = Some ''UpdateTags'', allow = True,
       enabled = True, userRoleAttr = Some ''admin'' \<rparr>"

definition rule_update_tags_deny :: rule where
  "rule_update_tags_deny =
     \<lparr> rule_name = ''p1-UpdateTags-deny'', operation = Some ''UpdateTags'', allow = False,
       enabled = False, userRoleAttr = Some ''admin'' \<rparr>"

definition rule_update_owner :: rule where
  "rule_update_owner =
     \<lparr> rule_name = ''p1-UpdateOwner'', operation = Some ''UpdateOwner'', allow = True,
       enabled = False, userRoleAttr = Some ''admin'' \<rparr>"

definition rule_blank :: rule where
  "rule_blank =
     \<lparr> rule_name = [], operation = Some [], allow = False, enabled = False,
       userRoleAttr = None \<rparr>"

definition admin_policy :: policy_rec where
  "admin_policy =
     \<lparr> policy_name = ''p1'', policyType = ''AccessControl'',
       rules = [rule_update_tags, rule_update_owner, rule_update_tags_deny] \<rparr>"



definition network_error :: axios_error where
  "network_error = \<lparr> message = Some ''Network Error'', response = None \<rparr>"

definition not_found_error :: axios_error where
  "not_found_error =
     \<lparr> message = Some ''Request failed with status code 404'',
       response = Some \<lparr> resp_data = Some \<lparr> code = Some 404,
                                            data_message = Some ''Role not found'' \<rparr> \<rparr> \<rparr>"

text \<open>The page once the roles and the policy of the first role are loaded.\<close>

definition loaded_state :: page_state where
  "loaded_state =
     initial_state\<lparr>roles := [admin_role, steward_role], currentRole := Some admin_role,
       currentPolicy := Some admin_policy\<rparr>"



text \<open>
  The loaded page after \<^verbatim>\<open>getRoleByName\<close> has answered with no data, with the
  description editor then opened: the role list is not empty, so the editor is
  rendered, and no role is current.
\<close>

definition no_current_role_state :: page_state where
  "no_current_role_state =
     onDescriptionEdit
       (fst (fetchCurrentRole_settled ''Not found'' loaded_state
               (loaded_state\<lparr>isLoading := True\<rparr>) (Resolved None)))"

section \<open>Properties\<close>

subsection \<open>Evaluation of the string functions on the example data\<close>

lemma toLower_Admin: "toLower ''Admin'' = toLower ''admin''"
  by code_simp

lemma trim_Nil: "trim [] = []"
  by (simp add: trim_def)

lemma trim_Admin: "trim ''Admin'' = ''Admin''"
  by code_simp

lemma trim_blank: "trim ''  '' = []"
  by code_simp

lemma trim_consumer: "trim ''consumer'' = ''consumer''"
  by code_simp

lemma trim_Data_Consumer: "trim ''Data Consumer'' = ''Data Consumer''"
  by code_simp

subsection \<open>Validation\<close>

lemma map_of_errData_name:
  "map_of (AList.update ''displayName'' v al) ''name'' = map_of al ''name''"
  by (simp add: update_conv')

lemma onNewDataChange_name:
  assumes "errorData st \<noteq> None \<or> forceSet"
  shows "map_of (fst (onNewDataChange st data forceSet)) ''name'' =
           (if trim (role_name data) = [] then Some ''Name is required''
            else if find (\<lambda>item. toLower (role_name item) = toLower (role_name data))
                      (roles st) \<noteq> None
              then Some ''Name already exists''
            else if length (role_name data) < 1 \<or> length (role_name data) > 128
              then Some ''Name size must be between 1 and 128''
            else None)"
proof (cases "displayName data")
  case None
  then show ?thesis
    using assms by (simp add: onNewDataChange_def Let_def map_of_errData_name)
next
  case (Some dn)
  then show ?thesis
    using assms by (simp add: onNewDataChange_def Let_def map_of_errData_name)
qed

text \<open>
  C1. When no error state has been recorded (\<^verbatim>\<open>errorData\<close> is \<^verbatim>\<open>undefined\<close>) and the
  force flag is not set, \<^verbatim>\<open>onNewDataChange\<close> and \<^verbatim>\<open>validateRuleData\<close> return the empty
  mapping and leave the state as it is, whatever the candidate. A non-empty mapping is
  returned only when an error state exists or the flag is set; and then the result is
  that of the forced validation, which is also recorded as the new error state.
\<close>

theorem validation_short_circuit:
  "(errorData st = None \<and> \<not> forceSet \<longrightarrow>
      onNewDataChange st data forceSet = ([], st) \<and>
      validateRuleData st rdata forceSet = ([], st)) \<and>
   (fst (onNewDataChange st data forceSet) \<noteq> [] \<longrightarrow> errorData st \<noteq> None \<or> forceSet) \<and>
   (fst (validateRuleData st rdata forceSet) \<noteq> [] \<longrightarrow> errorData st \<noteq> None \<or> forceSet) \<and>
   (errorData st \<noteq> None \<or> forceSet \<longrightarrow>
      onNewDataChange st data forceSet =
        (fst (onNewDataChange st data True),
         st\<lparr>errorData := Some (fst (onNewDataChange st data True))\<rparr>) \<and>
      validateRuleData st rdata forceSet =
        (fst (validateRuleData st rdata True),
         st\<lparr>errorData := Some (fst (validateRuleData st rdata True))\<rparr>))"
  by (auto simp add: onNewDataChange_def validateRuleData_def Let_def)

text \<open>
  On the freshly mounted page, a candidate role with a blank name and a candidate rule
  with no operation pass the validation that is not forced.
\<close>

theorem validation_short_circuit_witness:
  "onNewDataChange initial_state candidate_blank False = ([], initial_state) \<and>
   validateRuleData initial_state rule_blank False = ([], initial_state)"
  using validation_short_circuit [of initial_state False candidate_blank rule_blank]
  by (simp add: initial_state_def)

text \<open>
  C2. When role validation executes (the force flag is set or an error state exists),
  a candidate whose name is blank after trimming, or whose name equals that of a loaded
  role up to case, gets an error for the key \<^verbatim>\<open>name\<close>: \<^verbatim>\<open>Name is required\<close> for the
  blank name, \<^verbatim>\<open>Name already exists\<close> otherwise. Neither message is empty.
\<close>

theorem invalid_name_rejected:
  assumes run: "errorData st \<noteq> None \<or> forceSet"
    and bad: "trim (role_name data) = [] \<or>
              (\<exists>item \<in> set (roles st). toLower (role_name item) = toLower (role_name data))"
  shows "map_of (fst (onNewDataChange st data forceSet)) ''name'' =
           Some (if trim (role_name data) = [] then ''Name is required''
                 else ''Name already exists'') \<and>
         (if trim (role_name data) = [] then ''Name is required''
          else ''Name already exists'') \<noteq> []"
proof (cases "trim (role_name data) = []")
  case True
  then show ?thesis by (simp add: onNewDataChange_name [OF run])
next
  case False
  with bad
  have "find (\<lambda>item. toLower (role_name item) = toLower (role_name data)) (roles st) \<noteq> None"
    by (auto simp add: find_None_iff)
  with False show ?thesis by (simp add: onNewDataChange_name [OF run])
qed

text \<open>
  The scenario of the spec: with the role \<^verbatim>\<open>admin\<close> loaded, the candidate \<^verbatim>\<open>Admin\<close> with
  display name \<^verbatim>\<open>X\<close> fails the forced validation with \<^verbatim>\<open>Name already exists\<close>.
\<close>

theorem invalid_name_rejected_witness:
  "map_of (fst (onNewDataChange (initial_state\<lparr>roles := [admin_role]\<rparr>) candidate_Admin True))
     ''name'' = Some ''Name already exists''"
  using invalid_name_rejected [of "initial_state\<lparr>roles := [admin_role]\<rparr>" True candidate_Admin]
  by (simp add: candidate_Admin_def admin_role_def trim_Admin toLower_Admin)

subsection \<open>Rule deletion and the enabled switch\<close>

text \<open>
  C3. With a policy \<open>p\<close> held as the current policy, deleting the rule \<open>r\<close> issues one
  call, of \<^verbatim>\<open>updatePolicy\<close>, with the name and type of \<open>p\<close> and with exactly the rules of
  \<open>p\<close> whose operation differs from that of \<open>r\<close>, in their order: every rule that
  shares the operation of \<open>r\<close> is removed, whatever its name, and a rule with another
  operation is kept, also when it has the name of \<open>r\<close>.
\<close>

theorem deleteRule_by_operation:
  assumes "currentPolicy st = Some p"
  shows "deleteRule st r =
           (st, [Call (UpdatePolicy
                   \<lparr> up_name = Some (policy_name p), up_policyType = Some (policyType p),
                     up_rules = Some (filter (\<lambda>x. operation x \<noteq> operation r) (rules p)) \<rparr>)]) \<and>
         set (filter (\<lambda>x. operation x \<noteq> operation r) (rules p)) =
           {x \<in> set (rules p). operation x \<noteq> operation r}"
  using assms by (simp add: deleteRule_def)

text \<open>
  Deleting the rule \<^verbatim>\<open>p1-UpdateTags\<close> of the example policy also removes the rule
  \<^verbatim>\<open>p1-UpdateTags-deny\<close>, which has the same operation and another name.
\<close>

theorem deleteRule_by_operation_witness:
  "deleteRule loaded_state rule_update_tags =
     (loaded_state, [Call (UpdatePolicy
        \<lparr> up_name = Some ''p1'', up_policyType = Some ''AccessControl'',
          up_rules = Some [rule_update_owner] \<rparr>)])"
  using deleteRule_by_operation [of loaded_state admin_policy rule_update_tags]
  by (simp add: loaded_state_def initial_state_def admin_policy_def rule_update_tags_def
      rule_update_owner_def rule_update_tags_deny_def)

lemma replace_by_name_distinct:
  assumes d: "distinct (map rule_name rs)"
    and i: "i < length rs"
    and n: "rule_name (rs ! i) = nm"
  shows "map (\<lambda>x. if rule_name x = nm then r1 else x) rs = rs[i := r1]"
proof (rule nth_equalityI)
  show "length (map (\<lambda>x. if rule_name x = nm then r1 else x) rs) = length (rs[i := r1])"
    by simp
next
  fix j
  assume "j < length (map (\<lambda>x. if rule_name x = nm then r1 else x) rs)"
  then have j: "j < length rs" by simp
  have "rule_name (rs ! j) = nm \<longleftrightarrow> j = i"
    using d i j n nth_eq_iff_index_eq [of "map rule_name rs" j i] by auto
  then show "map (\<lambda>x. if rule_name x = nm then r1 else x) rs ! j = rs[i := r1] ! j"
    using j by (auto simp add: nth_list_update)
qed

text \<open>
  C4. With a policy \<open>p\<close> held as the current policy and \<open>r\<close> one of its rules, the
  switch of \<open>r\<close> issues one call, of \<^verbatim>\<open>updatePolicy\<close>, with the name and type of \<open>p\<close>
  and with the rules of \<open>p\<close> in which every rule of the name of \<open>r\<close> is replaced by
  \<open>r\<close> with \<^verbatim>\<open>enabled\<close> negated and every rule of another name is unchanged. The
  replacement equals \<open>r\<close> in every other field. When the names of the rules are
  distinct, the list submitted is the current one updated at the position of \<open>r\<close>.
\<close>

theorem rule_switch_flips_enabled:
  assumes p: "currentPolicy st = Some p" and r: "r \<in> set (rules p)"
  shows "rule_switch_onClick st r =
           (st, [Call (UpdatePolicy
                   \<lparr> up_name = Some (policy_name p), up_policyType = Some (policyType p),
                     up_rules = Some (map (\<lambda>x. if rule_name x = rule_name r
                                                then r\<lparr>enabled := \<not> enabled r\<rparr> else x)
                                        (rules p)) \<rparr>)]) \<and>
         r\<lparr>enabled := \<not> enabled r\<rparr> =
           \<lparr> rule_name = rule_name r, operation = operation r, allow = allow r,
             enabled = \<not> enabled r, userRoleAttr = userRoleAttr r \<rparr> \<and>
         (distinct (map rule_name (rules p)) \<longrightarrow>
           (\<exists>i < length (rules p). rules p ! i = r \<and>
              map (\<lambda>x. if rule_name x = rule_name r then r\<lparr>enabled := \<not> enabled r\<rparr> else x)
                (rules p) = (rules p)[i := r\<lparr>enabled := \<not> enabled r\<rparr>]))"
proof -
  have call: "rule_switch_onClick st r =
           (st, [Call (UpdatePolicy
                   \<lparr> up_name = Some (policy_name p), up_policyType = Some (policyType p),
                     up_rules = Some (map (\<lambda>x. if rule_name x = rule_name r
                                                then r\<lparr>enabled := \<not> enabled r\<rparr> else x)
                                        (rules p)) \<rparr>)])"
    using p by (simp add: rule_switch_onClick_def onRuleUpdate_def)
  have frame: "r\<lparr>enabled := \<not> enabled r\<rparr> =
           \<lparr> rule_name = rule_name r, operation = operation r, allow = allow r,
             enabled = \<not> enabled r, userRoleAttr = userRoleAttr r \<rparr>"
    by simp
  from r obtain i where i: "i < length (rules p)" "rules p ! i = r"
    by (auto simp add: in_set_conv_nth)
  have upd: "distinct (map rule_name (rules p)) \<Longrightarrow>
      map (\<lambda>x. if rule_name x = rule_name r then r\<lparr>enabled := \<not> enabled r\<rparr> else x)
        (rules p) = (rules p)[i := r\<lparr>enabled := \<not> enabled r\<rparr>]"
    using i by (simp add: replace_by_name_distinct)
  from call frame upd i show ?thesis by blast
qed

text \<open>
  The switch of the second rule of the example policy, which is disabled, submits the
  three rules with the second one enabled.
\<close>

theorem rule_switch_flips_enabled_witness:
  "rule_switch_onClick loaded_state rule_update_owner =
     (loaded_state, [Call (UpdatePolicy
        \<lparr> up_name = Some ''p1'', up_policyType = Some ''AccessControl'',
          up_rules = Some [rule_update_tags, rule_update_owner\<lparr>enabled := True\<rparr>,
                           rule_update_tags_deny] \<rparr>)])"
  using rule_switch_flips_enabled [of loaded_state admin_policy rule_update_owner]
  by (simp add: loaded_state_def initial_state_def admin_policy_def rule_update_tags_def
      rule_update_owner_def rule_update_tags_deny_def)

subsection \<open>Role creation\<close>

text \<open>
  C5. When the forced validation of a candidate returns a non-empty mapping,
  \<^verbatim>\<open>createNewRole\<close> issues no effect at all: the create endpoint is not called.
\<close>

theorem createNewRole_invalid_no_call:
  assumes "fst (onNewDataChange st data True) \<noteq> []"
  shows "snd (createNewRole st data) = [] \<and>
         (\<forall>c. Call (CreateRole c) \<notin> set (snd (createNewRole st data)))"
  using assms by (cases "onNewDataChange st data True") (simp add: createNewRole_def)

lemma onNewDataChange_blank:
  "fst (onNewDataChange st candidate_blank True) =
     [(''name'', ''Name is required''), (''displayName'', ''Display name is required'')]"
  by (simp add: onNewDataChange_def candidate_blank_def trim_blank trim_Nil Let_def)

theorem createNewRole_invalid_no_call_witness:
  "snd (createNewRole (add_role_onClick initial_state) candidate_blank) = []"
  using createNewRole_invalid_no_call [of "add_role_onClick initial_state" candidate_blank]
  by (simp add: onNewDataChange_blank)

lemma createNewRole_state:
  "fst (createNewRole st data) = snd (onNewDataChange st data True)"
  by (cases "onNewDataChange st data True") (simp add: createNewRole_def)

lemma createNewRole_effects:
  "snd (createNewRole st data) =
     (if fst (onNewDataChange st data True) = [] then
        [Call (CreateRole \<lparr> cr_description = description data, cr_name = role_name data,
                            cr_displayName = displayName data \<rparr>)]
      else [])"
  by (cases "onNewDataChange st data True") (simp add: createNewRole_def)

lemma onNewDataChange_isAddingRole:
  "isAddingRole (snd (onNewDataChange st data forceSet)) = isAddingRole st"
  by (simp add: onNewDataChange_def Let_def)

lemma onNewDataChange_valid:
  "fst (onNewDataChange (add_role_onClick initial_state) candidate_valid True) = []"
  by (simp add: onNewDataChange_def add_role_onClick_def initial_state_def candidate_valid_def
      trim_consumer trim_Data_Consumer Let_def)

lemmas settled_defs =
  then_catch_finally_def fetchPolicy_settled_def fetchPolicy_then_def fetchPolicy_catch_def
  fetchPolicy_finally_def fetchRoles_settled_def fetchRoles_then_def fetchRoles_catch_def
  fetchRoles_finally_def fetchCurrentRole_settled_def fetchCurrentRole_then_def
  fetchCurrentRole_catch_def fetchCurrentRole_finally_def createNewRole_settled_def
  createNewRole_then_def createNewRole_catch_def createNewRole_finally_def
  createRule_settled_def createRule_catch_def createRule_finally_def setCurrentPolicy_def
  onRuleUpdate_settled_def onRuleUpdate_catch_def onRuleUpdate_finally_def
  deleteRule_settled_def deleteRule_catch_def deleteRule_finally_def fetchRoles_def

lemma createNewRole_failed:
  "createNewRole_settled st (Rejected err) =
     (st\<lparr>isAddingRole := False\<rparr>,
      [Toast ''error'' (case message err of Some m \<Rightarrow> m | None \<Rightarrow> ''Something went wrong!'')])"
  by (simp add: settled_defs)

lemma createNewRole_cleanup: "\<not> isAddingRole (fst (createNewRole_settled st res))"
  by (cases res) (simp_all add: settled_defs split: prod.splits)

lemma createNewRole_created:
  "createNewRole_settled st (Resolved (Some r)) =
     (st\<lparr>isLoading := True, isAddingRole := False\<rparr>, [Call (GetRoles [''policy'', ''users''])])"
  by (simp add: settled_defs)

lemma createNewRole_no_data:
  "createNewRole_settled st (Resolved None) = (st\<lparr>isAddingRole := False\<rparr>, [])"
  by (simp add: settled_defs)

text \<open>
  C6, as the claim states it, fails on a validation failure. The add-role modal is
  opened on the freshly mounted page and a candidate with a blank name is saved:
  \<^verbatim>\<open>createNewRole\<close> returns with no call issued, so no callback will follow, and the
  flag \<^verbatim>\<open>isAddingRole\<close> is still set.
\<close>

theorem createNewRole_modal_counterexample:
  "isAddingRole (fst (createNewRole (add_role_onClick initial_state) candidate_blank)) \<and>
   snd (createNewRole (add_role_onClick initial_state) candidate_blank) = []"
  by (simp add: createNewRole_state createNewRole_effects onNewDataChange_isAddingRole
      onNewDataChange_blank add_role_onClick_def)

text \<open>
  C6, amended. When the forced validation returns the empty mapping, \<^verbatim>\<open>createNewRole\<close>
  calls the create endpoint with the description, name and display name of the
  candidate; when it returns a non-empty mapping, no call is issued and the flag
  \<^verbatim>\<open>isAddingRole\<close> is left as it was. Whenever the call settles, with a response or with
  an error, the flag is cleared. On a response with data the only other change is the
  loading flag of the refetch, and the role list is requested again from the server:
  \<^verbatim>\<open>roles\<close> is not touched. On an error one toast shows the message of the error or
  \<^verbatim>\<open>Something went wrong!\<close>.
\<close>

theorem createNewRole_modal:
  "(fst (onNewDataChange st data True) = [] \<longrightarrow>
      snd (createNewRole st data) =
        [Call (CreateRole \<lparr> cr_description = description data, cr_name = role_name data,
                            cr_displayName = displayName data \<rparr>)]) \<and>
   (fst (onNewDataChange st data True) \<noteq> [] \<longrightarrow>
      snd (createNewRole st data) = [] \<and>
      isAddingRole (fst (createNewRole st data)) = isAddingRole st) \<and>
   \<not> isAddingRole (fst (createNewRole_settled st1 res)) \<and>
   createNewRole_settled st1 (Resolved (Some r)) =
     (st1\<lparr>isLoading := True, isAddingRole := False\<rparr>, [Call (GetRoles [''policy'', ''users''])]) \<and>
   createNewRole_settled st1 (Resolved None) = (st1\<lparr>isAddingRole := False\<rparr>, []) \<and>
   createNewRole_settled st1 (Rejected err) =
     (st1\<lparr>isAddingRole := False\<rparr>,
      [Toast ''error'' (case message err of Some m \<Rightarrow> m | None \<Rightarrow> ''Something went wrong!'')])"
proof -
  have invalid: "fst (onNewDataChange st data True) \<noteq> [] \<longrightarrow>
      snd (createNewRole st data) = [] \<and>
      isAddingRole (fst (createNewRole st data)) = isAddingRole st"
    by (simp add: createNewRole_state createNewRole_effects onNewDataChange_isAddingRole)
  show ?thesis
    using invalid createNewRole_cleanup [of st1 res] createNewRole_created [of st1 r]
      createNewRole_no_data [of st1] createNewRole_failed [of st1 err]
    by (simp add: createNewRole_effects)
qed

text \<open>
  A valid candidate saved from the add-role modal of the freshly mounted page: the
  create endpoint is called, and when the call fails the modal is closed.
\<close>

theorem createNewRole_modal_witness:
  "snd (createNewRole (add_role_onClick initial_state) candidate_valid) =
     [Call (CreateRole \<lparr> cr_description = Some [], cr_name = ''consumer'',
                         cr_displayName = Some ''Data Consumer'' \<rparr>)] \<and>
   \<not> isAddingRole
       (fst (createNewRole_settled
          (fst (createNewRole (add_role_onClick initial_state) candidate_valid))
          (Rejected network_error)))"
proof -
  note modal = createNewRole_modal [of "add_role_onClick initial_state" candidate_valid
      "fst (createNewRole (add_role_onClick initial_state) candidate_valid)"
      "Rejected network_error" admin_role network_error]
  from modal onNewDataChange_valid
  have call: "snd (createNewRole (add_role_onClick initial_state) candidate_valid) =
      [Call (CreateRole \<lparr> cr_description = description candidate_valid,
                          cr_name = role_name candidate_valid,
                          cr_displayName = displayName candidate_valid \<rparr>)]"
    by blast
  from modal
  have closed: "\<not> isAddingRole
       (fst (createNewRole_settled
          (fst (createNewRole (add_role_onClick initial_state) candidate_valid))
          (Rejected network_error)))"
    by blast
  from call closed show ?thesis
    by (simp add: candidate_valid_def)
qed

subsection \<open>Failing calls\<close>

lemma fetchPolicy_failed:
  "fetchPolicy_settled st (Rejected err) =
     (st\<lparr>isLoadingPolicy := False\<rparr>, [Toast ''error'' ''Error while getting policy''])"
  by (simp add: settled_defs)

lemma fetchPolicy_cleanup: "\<not> isLoadingPolicy (fst (fetchPolicy_settled st res))"
  by (cases res) (simp_all add: settled_defs)

lemma fetchRoles_failed:
  "fetchRoles_settled st (Rejected err) =
     (st\<lparr>error := ''Error while getting roles'', isLoading := False\<rparr>,
      [Toast ''error'' ''Error while getting roles''])"
  by (simp add: settled_defs)

lemma fetchRoles_cleanup: "\<not> isLoading (fst (fetchRoles_settled st res))"
  by (cases res) (simp_all add: settled_defs)

lemma fetchCurrentRole_failed_no_response:
  assumes "response err = None"
  shows "fetchCurrentRole_settled e404 cl st (Rejected err) = (st\<lparr>isLoading := False\<rparr>, [])"
  using assms by (simp add: settled_defs)

lemma fetchCurrentRole_failed_with_data:
  assumes "response err = Some resp" and "resp_data resp = Some d"
  shows "fetchCurrentRole_settled e404 cl st (Rejected err) =
     ((case code d of
         None \<Rightarrow> st
       | Some c \<Rightarrow> if c \<noteq> 0 then st\<lparr>error := e404\<rparr> else st)\<lparr>isLoading := False\<rparr>, [])"
  using assms by (simp add: settled_defs split: option.splits)

lemma fetchCurrentRole_cleanup: "\<not> isLoading (fst (fetchCurrentRole_settled e404 cl st res))"
  by (cases res) (simp_all add: settled_defs Let_def split: option.splits prod.splits)

lemma createRule_failed:
  "createRule_settled st (Rejected err) =
     (st\<lparr>isAddingRule := False\<rparr>,
      [Toast ''error'' (response_message_or err ''Error while adding new rule'')])"
  by (simp add: settled_defs)

lemma createRule_cleanup: "\<not> isAddingRule (fst (createRule_settled st res))"
  by (cases res) (simp_all add: settled_defs)

lemma onRuleUpdate_failed:
  "onRuleUpdate_settled data st (Rejected err) =
     (st\<lparr>editingRule := \<lparr> flag_rule = None, flag_state = False \<rparr>\<rparr>,
      [Toast ''error''
         (response_message_or err (''Error while updating '' @ rule_name data @ '' rule''))])"
  by (simp add: settled_defs)

lemma onRuleUpdate_cleanup:
  "editingRule (fst (onRuleUpdate_settled data st res)) = \<lparr> flag_rule = None, flag_state = False \<rparr>"
  by (cases res) (simp_all add: settled_defs)

lemma deleteRule_failed:
  "deleteRule_settled st (Rejected err) =
     (st\<lparr>deletingRule := \<lparr> flag_rule = None, flag_state = False \<rparr>\<rparr>,
      [Toast ''error'' (response_message_or err ''Error while deleting rule'')])"
  by (simp add: settled_defs)

lemma deleteRule_cleanup:
  "deletingRule (fst (deleteRule_settled st res)) = \<lparr> flag_rule = None, flag_state = False \<rparr>"
  by (cases res) (simp_all add: settled_defs)

text \<open>
  C7, as the claim states it, fails for two of the fetches. When \<^verbatim>\<open>getRoleByName\<close>
  rejects with an error that carries no response, \<^verbatim>\<open>fetchCurrentRole\<close> shows no toast.
  When \<^verbatim>\<open>getRoles\<close> rejects, \<^verbatim>\<open>fetchRoles\<close> changes the page error, which is not a
  loading flag.
\<close>

theorem failed_call_counterexample:
  "snd (fetchCurrentRole_settled ''Not found'' loaded_state (loaded_state\<lparr>isLoading := True\<rparr>)
          (Rejected network_error)) = [] \<and>
   error (fst (fetchRoles_settled (initial_state\<lparr>isLoading := True\<rparr>) (Rejected network_error)))
     \<noteq> error (initial_state\<lparr>isLoading := True\<rparr>)"
  by (simp add: settled_defs network_error_def initial_state_def)

text \<open>
  C7, amended. A failed \<^verbatim>\<open>getPolicy\<close> shows one error toast and changes nothing but the
  flag \<^verbatim>\<open>isLoadingPolicy\<close>, which is cleared after success and failure alike. A failed
  \<^verbatim>\<open>getRoles\<close> shows one error toast, sets the page error and clears \<^verbatim>\<open>isLoading\<close>, which
  is cleared after success too. A failed \<^verbatim>\<open>getRoleByName\<close> whose error has no response, or
  a response with data, shows no toast; it sets the page error to \<^verbatim>\<open>ERROR404\<close> when the
  response data has a truthy code and changes nothing else but \<^verbatim>\<open>isLoading\<close>, which is
  cleared after every outcome of the call. A failed create-role, add-rule,
  update-rule or delete-rule call shows one error toast with the message of the server
  or the fallback of the handler, and changes nothing but the modal state of that
  handler (\<^verbatim>\<open>isAddingRole\<close>, \<^verbatim>\<open>isAddingRule\<close>, \<^verbatim>\<open>editingRule\<close>, \<^verbatim>\<open>deletingRule\<close>), which is
  reset after success and failure alike.
\<close>

theorem failed_call_handling:
  "fetchPolicy_settled st (Rejected err) =
     (st\<lparr>isLoadingPolicy := False\<rparr>, [Toast ''error'' ''Error while getting policy'']) \<and>
   \<not> isLoadingPolicy (fst (fetchPolicy_settled st res_policy)) \<and>
   fetchRoles_settled st (Rejected err) =
     (st\<lparr>error := ''Error while getting roles'', isLoading := False\<rparr>,
      [Toast ''error'' ''Error while getting roles'']) \<and>
   \<not> isLoading (fst (fetchRoles_settled st res_roles)) \<and>
   (response err = None \<longrightarrow>
      fetchCurrentRole_settled e404 cl st (Rejected err) = (st\<lparr>isLoading := False\<rparr>, [])) \<and>
   (response err = Some resp \<and> resp_data resp = Some d \<longrightarrow>
      fetchCurrentRole_settled e404 cl st (Rejected err) =
        ((case code d of
            None \<Rightarrow> st
          | Some c \<Rightarrow> if c \<noteq> 0 then st\<lparr>error := e404\<rparr> else st)\<lparr>isLoading := False\<rparr>, [])) \<and>
   \<not> isLoading (fst (fetchCurrentRole_settled e404 cl st res_role)) \<and>
   createNewRole_settled st (Rejected err) =
     (st\<lparr>isAddingRole := False\<rparr>,
      [Toast ''error'' (case message err of Some m \<Rightarrow> m | None \<Rightarrow> ''Something went wrong!'')]) \<and>
   \<not> isAddingRole (fst (createNewRole_settled st res_role)) \<and>
   createRule_settled st (Rejected err) =
     (st\<lparr>isAddingRule := False\<rparr>,
      [Toast ''error'' (response_message_or err ''Error while adding new rule'')]) \<and>
   \<not> isAddingRule (fst (createRule_settled st res_policy)) \<and>
   onRuleUpdate_settled data st (Rejected err) =
     (st\<lparr>editingRule := \<lparr> flag_rule = None, flag_state = False \<rparr>\<rparr>,
      [Toast ''error''
         (response_message_or err (''Error while updating '' @ rule_name data @ '' rule''))]) \<and>
   editingRule (fst (onRuleUpdate_settled data st res_policy)) =
     \<lparr> flag_rule = None, flag_state = False \<rparr> \<and>
   deleteRule_settled st (Rejected err) =
     (st\<lparr>deletingRule := \<lparr> flag_rule = None, flag_state = False \<rparr>\<rparr>,
      [Toast ''error'' (response_message_or err ''Error while deleting rule'')]) \<and>
   deletingRule (fst (deleteRule_settled st res_policy)) =
     \<lparr> flag_rule = None, flag_state = False \<rparr>"
proof -
  have no_response: "response err = None \<longrightarrow>
      fetchCurrentRole_settled e404 cl st (Rejected err) = (st\<lparr>isLoading := False\<rparr>, [])"
    by (simp add: fetchCurrentRole_failed_no_response)
  have with_data: "response err = Some resp \<and> resp_data resp = Some d \<longrightarrow>
      fetchCurrentRole_settled e404 cl st (Rejected err) =
        ((case code d of
            None \<Rightarrow> st
          | Some c \<Rightarrow> if c \<noteq> 0 then st\<lparr>error := e404\<rparr> else st)\<lparr>isLoading := False\<rparr>, [])"
    using fetchCurrentRole_failed_with_data [of err resp d e404 cl st] by blast
  show ?thesis
    using no_response with_data
    by (simp only: fetchPolicy_failed fetchPolicy_cleanup fetchRoles_failed fetchRoles_cleanup
        fetchCurrentRole_cleanup createNewRole_failed createNewRole_cleanup
        createRule_failed createRule_cleanup onRuleUpdate_failed onRuleUpdate_cleanup
        deleteRule_failed deleteRule_cleanup simp_thms)
qed

text \<open>
  On the loaded page: a policy fetch that fails with a network error shows one toast and
  gives the loaded state again; a role fetch that fails with a network error shows
  nothing and gives the loaded state again; a role fetch that fails with a 404 payload
  shows nothing and sets the page error.
\<close>

theorem failed_call_handling_witness:
  "fetchPolicy_settled (loaded_state\<lparr>isLoadingPolicy := True\<rparr>) (Rejected network_error) =
     (loaded_state, [Toast ''error'' ''Error while getting policy'']) \<and>
   fetchCurrentRole_settled ''Not found'' loaded_state (loaded_state\<lparr>isLoading := True\<rparr>)
       (Rejected network_error) = (loaded_state, []) \<and>
   fetchCurrentRole_settled ''Not found'' loaded_state (loaded_state\<lparr>isLoading := True\<rparr>)
       (Rejected not_found_error) = (loaded_state\<lparr>error := ''Not found''\<rparr>, [])"
proof -
  have policy_failed:
    "fetchPolicy_settled (loaded_state\<lparr>isLoadingPolicy := True\<rparr>) (Rejected network_error) =
       (loaded_state\<lparr>isLoadingPolicy := True, isLoadingPolicy := False\<rparr>,
        [Toast ''error'' ''Error while getting policy''])"
    using failed_call_handling [of "loaded_state\<lparr>isLoadingPolicy := True\<rparr>" network_error]
    by blast
  have no_response: "response network_error = None"
    by (simp add: network_error_def)
  have role_failed:
    "fetchCurrentRole_settled ''Not found'' loaded_state (loaded_state\<lparr>isLoading := True\<rparr>)
       (Rejected network_error) = (loaded_state\<lparr>isLoading := True, isLoading := False\<rparr>, [])"
    using failed_call_handling [of "loaded_state\<lparr>isLoading := True\<rparr>" network_error _ _
        "''Not found''" loaded_state] no_response
    by blast
  have payload: "response not_found_error =
        Some \<lparr> resp_data = Some \<lparr> code = Some 404, data_message = Some ''Role not found'' \<rparr> \<rparr> \<and>
      resp_data \<lparr> resp_data = Some \<lparr> code = Some 404, data_message = Some ''Role not found'' \<rparr> \<rparr> =
        Some \<lparr> code = Some 404, data_message = Some ''Role not found'' \<rparr>"
    by (simp add: not_found_error_def)
  have role_not_found:
    "fetchCurrentRole_settled ''Not found'' loaded_state (loaded_state\<lparr>isLoading := True\<rparr>)
       (Rejected not_found_error) =
       ((case code \<lparr> code = Some 404, data_message = Some ''Role not found'' \<rparr> of
           None \<Rightarrow> loaded_state\<lparr>isLoading := True\<rparr>
         | Some c \<Rightarrow> if c \<noteq> 0 then loaded_state\<lparr>isLoading := True, error := ''Not found''\<rparr>
                     else loaded_state\<lparr>isLoading := True\<rparr>)\<lparr>isLoading := False\<rparr>, [])"
    using failed_call_handling [of "loaded_state\<lparr>isLoading := True\<rparr>" not_found_error _ _
        "''Not found''" loaded_state
        "\<lparr> resp_data = Some \<lparr> code = Some 404, data_message = Some ''Role not found'' \<rparr> \<rparr>"
        "\<lparr> code = Some 404, data_message = Some ''Role not found'' \<rparr>"] payload
    by blast
  from policy_failed role_failed role_not_found show ?thesis
    by (simp add: loaded_state_def initial_state_def)
qed

subsection \<open>The policy of the current role\<close>









subsection \<open>Description update\<close>

lemma onDescriptionUpdate_settled_isEditable:
  "isEditable (fst (onDescriptionUpdate_settled cl st1 res)) = isEditable st1"
  by (cases res)
    (simp_all add: onDescriptionUpdate_settled_def onDescriptionUpdate_then_def
      fetchCurrentRole_def split: option.splits)

text \<open>
  C9, as the claim states it, fails when no role is current. The role list is loaded,
  \<^verbatim>\<open>getRoleByName\<close> answers with no data, which \<^verbatim>\<open>setCurrentRole\<close> stores as it is, and
  the description editor, rendered because the role list is not empty, is opened. On an
  update \<^verbatim>\<open>compare\<close> throws on the missing role: the handler leaves the edit-mode flag
  set, and calls no endpoint although the new description differs from the missing one.
\<close>

theorem onDescriptionUpdate_counterexample:
  "roles no_current_role_state \<noteq> [] \<and>
   currentRole no_current_role_state = None \<and>
   isEditable no_current_role_state \<and>
   isEditable (fst (onDescriptionUpdate no_current_role_state ''Admins'')) \<and>
   snd (onDescriptionUpdate no_current_role_state ''Admins'') = [Uncaught TypeError]"
  by (simp add: no_current_role_state_def onDescriptionEdit_def onDescriptionUpdate_def
      settled_defs loaded_state_def initial_state_def)

text \<open>
  C9, amended. With a current role \<open>r\<close>, \<^verbatim>\<open>onDescriptionUpdate\<close> returns with the
  edit-mode flag cleared and nothing else changed: the flag is cleared when the handler
  returns, before any response. The update endpoint is called if and only if the description of \<open>r\<close>
  is not the new one, with the id of \<open>r\<close> and the patch between \<open>r\<close> and its copy
  with the new description. Whatever the outcome of the call, its callbacks leave the
  flag cleared.
\<close>

theorem onDescriptionUpdate_exits_edit_mode:
  assumes "currentRole st = Some r"
  shows "\<not> isEditable (fst (onDescriptionUpdate st html)) \<and>
     ((\<exists>req. Call req \<in> set (snd (onDescriptionUpdate st html))) \<longleftrightarrow>
        description r \<noteq> Some html) \<and>
     snd (onDescriptionUpdate st html) =
       (if description r \<noteq> Some html
        then [Call (UpdateRole (role_id r) (compare r (r\<lparr>description := Some html\<rparr>)))]
        else []) \<and>
     fst (onDescriptionUpdate st html) = st\<lparr>isEditable := False\<rparr> \<and>
     (\<forall>cl res. \<not> isEditable
        (fst (onDescriptionUpdate_settled cl (fst (onDescriptionUpdate st html)) res)))"
  using assms
  by (simp add: onDescriptionUpdate_def onDescriptionUpdate_settled_isEditable Let_def)

text \<open>
  On the loaded page in edit mode: a new description is submitted as one replace
  operation and edit mode is left; the description the role has is not submitted.
\<close>

theorem onDescriptionUpdate_exits_edit_mode_witness:
  "\<not> isEditable (fst (onDescriptionUpdate (onDescriptionEdit loaded_state) ''Admins'')) \<and>
   snd (onDescriptionUpdate (onDescriptionEdit loaded_state) ''Admins'') =
     [Call (UpdateRole ''r1'' [Replace ''/description'' ''Admins''])] \<and>
   snd (onDescriptionUpdate (onDescriptionEdit loaded_state) ''Administrators'') = []"
  using onDescriptionUpdate_exits_edit_mode
      [of "onDescriptionEdit loaded_state" admin_role "''Admins''"]
    onDescriptionUpdate_exits_edit_mode
      [of "onDescriptionEdit loaded_state" admin_role "''Administrators''"]
  by (simp add: onDescriptionEdit_def loaded_state_def admin_role_def compare_def)

subsection \<open>Opening a form resets the error state\<close>

lemma onNewDataChange_records:
  "errorData st \<noteq> None \<or> forceSet \<Longrightarrow>
     errorData (snd (onNewDataChange st data forceSet)) =
       Some (fst (onNewDataChange st data forceSet))"
  by (auto simp add: onNewDataChange_def Let_def)

lemma validateRuleData_records:
  "errorData st \<noteq> None \<or> forceSet \<Longrightarrow>
     errorData (snd (validateRuleData st data forceSet)) =
       Some (fst (validateRuleData st data forceSet))"
  by (auto simp add: validateRuleData_def Let_def)

lemma createRule_state:
  "fst (createRule st data) = snd (validateRuleData st data True)"
  by (cases "validateRuleData st data True")
    (simp add: createRule_def Let_def split: option.splits)

lemma onNewDataChange_forced_eq:
  "errorData st \<noteq> None \<Longrightarrow> onNewDataChange st data False = onNewDataChange st data True"
  by (simp add: onNewDataChange_def)

lemma validateRuleData_forced_eq:
  "errorData st \<noteq> None \<Longrightarrow> validateRuleData st data False = validateRuleData st data True"
  by (simp add: validateRuleData_def)

lemma change_step_no_error_state:
  assumes "errorData st = None" and "is_change ev"
  shows "form_event_step st ev = (Some [], st, [])"
  using assms by (cases ev) (simp_all add: onNewDataChange_def validateRuleData_def)

lemma run_changes_no_error_state:
  assumes "errorData st = None" and "\<forall>ev \<in> set evs. is_change ev"
  shows "run_form_events st evs = (map (\<lambda>ev. Some []) evs, st, [])"
  using assms by (induction evs) (simp_all add: change_step_no_error_state)

lemma form_event_step_RoleFormChange:
  "form_event_step st (RoleFormChange data) =
     (Some (fst (onNewDataChange st data False)), snd (onNewDataChange st data False), [])"
  by (simp add: case_prod_beta)

lemma form_event_step_RoleFormSave:
  "form_event_step st (RoleFormSave data) =
     (None, snd (onNewDataChange st data True), snd (createNewRole st data))"
  using createNewRole_state [of st data]
  by (cases "createNewRole st data") simp

text \<open>
  C10, as the claim states it, fails after a forced validation that finds no error. The
  add-role modal is opened on the freshly mounted page and a valid candidate is saved:
  the forced validation returns the empty mapping, which is recorded as the error state,
  and the create call is pending with the modal still open. The form then changes to a
  blank candidate: the validation that is not forced returns two errors, though no
  forced validation has recorded a non-empty error state.
\<close>

theorem form_validation_after_open_counterexample:
  "errorData (add_role_onClick initial_state) = None \<and>
   fst (onNewDataChange (add_role_onClick initial_state) candidate_valid True) = [] \<and>
   fst (run_form_events (add_role_onClick initial_state)
          [RoleFormSave candidate_valid, RoleFormChange candidate_blank]) =
     [None, Some [(''name'', ''Name is required''),
                  (''displayName'', ''Display name is required'')]]"
proof -
  have opened: "errorData (add_role_onClick initial_state) = None"
    by (simp add: add_role_onClick_def)
  have recorded:
    "errorData (snd (onNewDataChange (add_role_onClick initial_state) candidate_valid True))
      \<noteq> None"
    by (simp add: onNewDataChange_records)
  show ?thesis
    by (simp add: opened onNewDataChange_valid form_event_step_RoleFormChange
        form_event_step_RoleFormSave onNewDataChange_forced_eq [OF recorded]
        onNewDataChange_blank
        del: form_event_step.simps)
qed

text \<open>
  C10, amended. Each of the three handlers that open the add-role or the add-rule modal
  resets \<^verbatim>\<open>errorData\<close> to \<^verbatim>\<open>undefined\<close> and sets the flag of its modal. From a state with
  no error state, every sequence of change events of the two forms, which validate
  without the force flag, returns the empty mapping each time, for whatever data, and
  leaves the state as it is. The period ends with the next forced validation, whatever
  it finds: saving either form records the mapping of the forced validation as the
  error state, also when it is empty, and with an error state recorded the validation
  that is not forced is the forced one.
\<close>

theorem form_validation_after_open:
  "errorData (add_role_onClick st) = None \<and> isAddingRole (add_role_onClick st) \<and>
   errorData (click_here_onClick st) = None \<and> isAddingRole (click_here_onClick st) \<and>
   errorData (add_rule_onClick st) = None \<and> isAddingRule (add_rule_onClick st) \<and>
   (errorData st0 = None \<and> (\<forall>ev \<in> set evs. is_change ev) \<longrightarrow>
      run_form_events st0 evs = (map (\<lambda>ev. Some []) evs, st0, [])) \<and>
   errorData (fst (createNewRole st0 data)) = Some (fst (onNewDataChange st0 data True)) \<and>
   errorData (fst (createRule st0 rdata)) = Some (fst (validateRuleData st0 rdata True)) \<and>
   (errorData st0 \<noteq> None \<longrightarrow>
      onNewDataChange st0 data False = onNewDataChange st0 data True \<and>
      validateRuleData st0 rdata False = validateRuleData st0 rdata True)"
  by (simp add: add_role_onClick_def click_here_onClick_def add_rule_onClick_def
      run_changes_no_error_state createNewRole_state createRule_state onNewDataChange_records
      validateRuleData_records onNewDataChange_forced_eq validateRuleData_forced_eq)

text \<open>
  The add-rule modal is opened on the loaded page; three changes of the forms, two of
  them with invalid data, return the empty mapping and change nothing.
\<close>

theorem form_validation_after_open_witness:
  "run_form_events (add_rule_onClick loaded_state)
     [RuleFormChange rule_blank, RoleFormChange candidate_blank, RuleFormChange rule_update_tags] =
     ([Some [], Some [], Some []], add_rule_onClick loaded_state, [])"
  using form_validation_after_open [of loaded_state "add_rule_onClick loaded_state"
      "[RuleFormChange rule_blank, RoleFormChange candidate_blank, RuleFormChange rule_update_tags]"]
  by simp

end
